theory Spec2Isabelle
  imports Complex_Main
begin

section \<open>Python values\<close>

text \<open>
  The two enumerations of the package. \<open>Toggle\<close> is defined in toggle.py, \<open>Channel\<close> at the
  end of arc.py. The \<open>value\<close> of a member is what the class body assigns to it.
\<close>

datatype Toggle = ON | OFF

fun Toggle_value :: "Toggle \<Rightarrow> bool" where
  "Toggle_value ON = True"
| "Toggle_value OFF = False"

datatype Channel =
    MAIN_CURRENT | MAIN_VOLTAGE | MAIN_ENERGY
  | ADC_CURRENT | ADC_VOLTAGE | ADC_ENERGY
  | SENSE_MINUS_VOLTAGE | SENSE_PLUS_VOLTAGE
  | VBUS | TEMPERATURE | UART_LOGS | GPI_1 | GPI_2

fun Channel_value :: "Channel \<Rightarrow> string" where
  "Channel_value MAIN_CURRENT = ''mc''"
| "Channel_value MAIN_VOLTAGE = ''mv''"
| "Channel_value MAIN_ENERGY = ''me''"
| "Channel_value ADC_CURRENT = ''ac''"
| "Channel_value ADC_VOLTAGE = ''av''"
| "Channel_value ADC_ENERGY = ''ae''"
| "Channel_value SENSE_MINUS_VOLTAGE = ''sn''"
| "Channel_value SENSE_PLUS_VOLTAGE = ''sp''"
| "Channel_value VBUS = ''vb''"
| "Channel_value TEMPERATURE = ''tp''"
| "Channel_value UART_LOGS = ''rx''"
| "Channel_value GPI_1 = ''i1''"
| "Channel_value GPI_2 = ''i2''"

text \<open>
  The methods of \<open>Arc\<close> are dynamically typed: arguments, the fields of the handle, requests
  and responses are Python objects. The universe modelled here holds the JSON-like values
  that travel over the connection and the members of the two enumerations. A dictionary is
  an association list with string keys, in the order of the dict display that built it.
  A finite float is modelled by the rational it denotes. The methods only pass such values
  on; no arithmetic is done on them in this model.
\<close>

datatype pyval =
    PNone
  | PBool bool
  | PInt int
  | PFloat rat
  | PStr string
  | PList "pyval list"
  | PDict "(string \<times> pyval) list"
  | PToggle Toggle
  | PChannel Channel

text \<open>
  Modelled from the spec: the exception class (module \<open>otii_exception\<close>) is not part of the
  sources at hand. The specification describes it as "a raised exception carrying the full
  response for caller inspection", so \<open>Otii_Exception\<close> carries the response it was
  constructed from. The other exceptions a method can leave with are the interpreter's:
  \<open>KeyError\<close>, with the missing key, and those of a failed attribute access, an unsupported
  operand or subscript, a division by zero, and a result too large for a float.
\<close>

datatype error =
    Otii_Exception pyval
  | KeyError string
  | TypeError
  | AttributeError
  | ZeroDivisionError
  | OverflowError

text \<open>\<open>bind_err\<close> sequences two steps either of which may raise.\<close>

fun bind_err :: "error + 'a \<Rightarrow> ('a \<Rightarrow> error + 'b) \<Rightarrow> error + 'b" where
  "bind_err (Inl e) f = Inl e"
| "bind_err (Inr x) f = f x"

text \<open>
  \<open>subscript x k\<close> is the expression \<open>x[k]\<close> for a string key \<open>k\<close>: a dictionary looks the key
  up and raises \<open>KeyError\<close> when it is absent; strings and lists take integer indices only,
  and the remaining values are not subscriptable.
\<close>

fun subscript :: "pyval \<Rightarrow> string \<Rightarrow> error + pyval" where
  "subscript (PDict kvs) k = (case map_of kvs k of Some v \<Rightarrow> Inr v | None \<Rightarrow> Inl (KeyError k))"
| "subscript _ k = Inl TypeError"

text \<open>
  \<open>dict_get x k d\<close> is the method call \<open>x.get(k, d)\<close>; only dictionaries have the method.
\<close>

fun dict_get :: "pyval \<Rightarrow> string \<Rightarrow> pyval \<Rightarrow> error + pyval" where
  "dict_get (PDict kvs) k d = (case map_of kvs k of Some v \<Rightarrow> Inr v | None \<Rightarrow> Inr d)"
| "dict_get _ k d = Inl AttributeError"

text \<open>
  \<open>attr_value x\<close> is the attribute access \<open>x.value\<close>: defined on the members of the two
  enumerations, an \<open>AttributeError\<close> on every other value of the universe.
\<close>

fun attr_value :: "pyval \<Rightarrow> error + pyval" where
  "attr_value (PToggle t) = Inr (PBool (Toggle_value t))"
| "attr_value (PChannel c) = Inr (PStr (Channel_value c))"
| "attr_value _ = Inl AttributeError"

text \<open>
  \<open>py_eq_str x s\<close> is the comparison \<open>x == s\<close> against a string literal: only an equal string
  compares equal.
\<close>

fun py_eq_str :: "pyval \<Rightarrow> string \<Rightarrow> bool" where
  "py_eq_str (PStr t) s = (t = s)"
| "py_eq_str _ s = False"

text \<open>
  The one piece of arithmetic in the package is the timeout \<open>60 + (timeout / 1000)\<close> of
  \<open>wait_for_battery_data\<close>. The two operators belong to the interpreter: true division
  rounds to a machine float and raises \<open>OverflowError\<close> on an integer too large for one,
  addition rounds again, and either raises \<open>TypeError\<close> on an operand that is not a number.
  They are not modelled here. A method that computes takes the interpreter's operators as
  a parameter: \<open>op_truediv py x y\<close> is \<open>x / y\<close> and \<open>op_add py x y\<close> is \<open>x + y\<close>, each a
  value or an exception.
\<close>

record interpreter =
  op_truediv :: "pyval \<Rightarrow> pyval \<Rightarrow> error + pyval"
  op_add :: "pyval \<Rightarrow> pyval \<Rightarrow> error + pyval"

section \<open>The connection\<close>

text \<open>
  The second argument of \<open>send_and_receive\<close>: left out, so that the connection's own default
  applies, or given.
\<close>

datatype timeout = Default_timeout | Timeout pyval

type_synonym exchange = "pyval \<times> timeout \<times> pyval"

text \<open>
  Modelled from the spec: the connection class (module \<open>otii_connection\<close>) is not part of
  the sources at hand. The specification describes it as a collaborator that "exposes a
  synchronous \<open>send_and_receive(request, timeout) -> response\<close> operation". A connection is
  therefore an arbitrary deterministic responder \<open>reply\<close>, which may depend on everything
  exchanged so far, together with the record \<open>exchanges\<close> of the calls made on it (request,
  timeout, response), oldest first. The record is what makes the calls of a method
  observable.
\<close>

record connection =
  reply :: "exchange list \<Rightarrow> pyval \<Rightarrow> timeout \<Rightarrow> pyval"
  exchanges :: "exchange list"

definition send_and_receive :: "connection \<Rightarrow> pyval \<Rightarrow> timeout \<Rightarrow> pyval \<times> connection" where
  "send_and_receive conn request t =
    (let response = reply conn (exchanges conn) request t
     in (response, conn\<lparr>exchanges := exchanges conn @ [(request, t, response)]\<rparr>))"

section \<open>The device handle\<close>

text \<open>
  The attributes \<open>type\<close>, \<open>id\<close> and \<open>name\<close> of the class are the fields \<open>arc_type\<close>, \<open>arc_id\<close>
  and \<open>arc_name\<close>. The handle holds the connection; a method returns, next to its result
  or exception, the handle as the call leaves it, with the connection in the state the
  call left it in.
\<close>

record Arc =
  arc_type :: pyval
  arc_id :: pyval
  arc_name :: pyval
  connection :: connection

type_synonym outcome = "(error + pyval) \<times> Arc"

definition Arc_init :: "pyval \<Rightarrow> connection \<Rightarrow> error + Arc" where
  "Arc_init device_dict conn =
    bind_err (subscript device_dict ''type'') (\<lambda>ty.
    bind_err (subscript device_dict ''device_id'') (\<lambda>ident.
    bind_err (subscript device_dict ''name'') (\<lambda>nm.
      Inr \<lparr>arc_type = ty, arc_id = ident, arc_name = nm, connection = conn\<rparr>)))"

text \<open>
  The envelope every method builds around its arguments, and the statement every method
  runs on the response: \<open>if response["type"] == "error": raise Otii_Exception(response)\<close>,
  followed by the method's return expression.
\<close>

definition make_request :: "string \<Rightarrow> pyval \<Rightarrow> pyval" where
  "make_request cmd data = PDict [(''type'', PStr ''request''), (''cmd'', PStr cmd), (''data'', data)]"

definition raise_if_error :: "pyval \<Rightarrow> error + pyval \<Rightarrow> error + pyval" where
  "raise_if_error response ret =
    bind_err (subscript response ''type'') (\<lambda>ty.
      if py_eq_str ty ''error'' then Inl (Otii_Exception response) else ret)"

text \<open>
  \<open>transact\<close> is the body shared by the methods, line by line: build the request from the
  command name and the data, call \<open>send_and_receive\<close> on the handle's connection, raise on
  an error response, and evaluate the return expression on the response otherwise.
\<close>

definition transact :: "Arc \<Rightarrow> string \<Rightarrow> pyval \<Rightarrow> timeout \<Rightarrow> (pyval \<Rightarrow> error + pyval) \<Rightarrow> outcome" where
  "transact self cmd data t ret =
    (let request = make_request cmd data;
         (response, conn) = send_and_receive (connection self) request t
     in (raise_if_error response (ret response), self\<lparr>connection := conn\<rparr>))"

text \<open>The return expressions: no \<open>return\<close> statement, and \<open>response["data"][k]\<close>.\<close>

definition no_return :: "pyval \<Rightarrow> error + pyval" where
  "no_return response = Inr PNone"

definition data_field :: "string \<Rightarrow> pyval \<Rightarrow> error + pyval" where
  "data_field k response = bind_err (subscript response ''data'') (\<lambda>d. subscript d k)"

text \<open>
  A call used as a statement: its value is dropped, its exception passes through.
\<close>

fun expr_stmt :: "outcome \<Rightarrow> outcome" where
  "expr_stmt (Inl e, self) = (Inl e, self)"
| "expr_stmt (Inr v, self) = (Inr PNone, self)"

section \<open>The methods of the handle\<close>

text \<open>
  One definition per method of arc.py, in the order of the file. Each gives the command
  name, the \<open>data\<close> dictionary as the dict display of the method writes it, the timeout
  argument of the call, and the return expression. An attribute access \<open>x.value\<close> inside the
  dict display is evaluated, and may raise, before anything is sent.
\<close>

definition calibrate :: "Arc \<Rightarrow> outcome" where
  "calibrate self =
    transact self ''arc_calibrate''
      (PDict [(''device_id'', arc_id self)])
      (Timeout (PInt 10)) no_return"

definition toggle_5v :: "Arc \<Rightarrow> pyval \<Rightarrow> outcome" where
  "toggle_5v self toggle =
    (case attr_value toggle of
       Inl e \<Rightarrow> (Inl e, self)
     | Inr toggle_value \<Rightarrow>
         transact self ''arc_enable_5v''
           (PDict [(''device_id'', arc_id self), (''enable'', toggle_value)])
           Default_timeout no_return)"

definition enable_5v :: "Arc \<Rightarrow> outcome" where
  "enable_5v self = expr_stmt (toggle_5v self (PToggle ON))"

definition disable_5v :: "Arc \<Rightarrow> outcome" where
  "disable_5v self = expr_stmt (toggle_5v self (PToggle OFF))"

definition toggle_battery_profiling :: "Arc \<Rightarrow> pyval \<Rightarrow> outcome" where
  "toggle_battery_profiling self toggle =
    (case attr_value toggle of
       Inl e \<Rightarrow> (Inl e, self)
     | Inr toggle_value \<Rightarrow>
         transact self ''arc_enable_battery_profiling''
           (PDict [(''device_id'', arc_id self), (''enable'', toggle_value)])
           Default_timeout no_return)"

definition enable_battery_profiling :: "Arc \<Rightarrow> outcome" where
  "enable_battery_profiling self = expr_stmt (toggle_battery_profiling self (PToggle ON))"

definition disable_battery_profiling :: "Arc \<Rightarrow> outcome" where
  "disable_battery_profiling self = expr_stmt (toggle_battery_profiling self (PToggle OFF))"

definition toggle_channel :: "Arc \<Rightarrow> pyval \<Rightarrow> pyval \<Rightarrow> outcome" where
  "toggle_channel self channel toggle =
    (case attr_value channel of
       Inl e \<Rightarrow> (Inl e, self)
     | Inr channel_value \<Rightarrow>
         (case attr_value toggle of
            Inl e \<Rightarrow> (Inl e, self)
          | Inr toggle_value \<Rightarrow>
              transact self ''arc_enable_channel''
                (PDict [(''device_id'', arc_id self), (''channel'', channel_value), (''enable'', toggle_value)])
                Default_timeout no_return))"

definition enable_channel :: "Arc \<Rightarrow> pyval \<Rightarrow> outcome" where
  "enable_channel self channel = expr_stmt (toggle_channel self channel (PToggle ON))"

definition disable_channel :: "Arc \<Rightarrow> pyval \<Rightarrow> outcome" where
  "disable_channel self channel = expr_stmt (toggle_channel self channel (PToggle OFF))"

definition toggle_exp_port :: "Arc \<Rightarrow> pyval \<Rightarrow> outcome" where
  "toggle_exp_port self toggle =
    (case attr_value toggle of
       Inl e \<Rightarrow> (Inl e, self)
     | Inr toggle_value \<Rightarrow>
         transact self ''arc_enable_exp_port''
           (PDict [(''device_id'', arc_id self), (''enable'', toggle_value)])
           Default_timeout no_return)"

definition enable_exp_port :: "Arc \<Rightarrow> outcome" where
  "enable_exp_port self = expr_stmt (toggle_exp_port self (PToggle ON))"

definition disable_exp_port :: "Arc \<Rightarrow> outcome" where
  "disable_exp_port self = expr_stmt (toggle_exp_port self (PToggle OFF))"

definition toggle_uart :: "Arc \<Rightarrow> pyval \<Rightarrow> outcome" where
  "toggle_uart self toggle =
    (case attr_value toggle of
       Inl e \<Rightarrow> (Inl e, self)
     | Inr toggle_value \<Rightarrow>
         transact self ''arc_enable_uart''
           (PDict [(''device_id'', arc_id self), (''enable'', toggle_value)])
           Default_timeout no_return)"

definition enable_uart :: "Arc \<Rightarrow> outcome" where
  "enable_uart self = expr_stmt (toggle_uart self (PToggle ON))"

definition disable_uart :: "Arc \<Rightarrow> outcome" where
  "disable_uart self = expr_stmt (toggle_uart self (PToggle OFF))"

definition get_4wire :: "Arc \<Rightarrow> outcome" where
  "get_4wire self =
    transact self ''arc_get_4wire''
      (PDict [(''device_id'', arc_id self)])
      Default_timeout (data_field ''value'')"

definition get_adc_resistor :: "Arc \<Rightarrow> outcome" where
  "get_adc_resistor self =
    transact self ''arc_get_adc_resistor''
      (PDict [(''device_id'', arc_id self)])
      Default_timeout (data_field ''value'')"

definition get_channel_samplerate :: "Arc \<Rightarrow> pyval \<Rightarrow> outcome" where
  "get_channel_samplerate self channel =
    (case attr_value channel of
       Inl e \<Rightarrow> (Inl e, self)
     | Inr channel_value \<Rightarrow>
         transact self ''arc_get_channel_samplerate''
           (PDict [(''device_id'', arc_id self), (''channel'', channel_value)])
           Default_timeout (data_field ''value''))"

definition get_exp_voltage :: "Arc \<Rightarrow> outcome" where
  "get_exp_voltage self =
    transact self ''arc_get_exp_voltage''
      (PDict [(''device_id'', arc_id self)])
      Default_timeout (data_field ''value'')"

definition get_gpi :: "Arc \<Rightarrow> pyval \<Rightarrow> outcome" where
  "get_gpi self pin =
    transact self ''arc_get_gpi''
      (PDict [(''device_id'', arc_id self), (''pin'', pin)])
      Default_timeout (data_field ''value'')"

definition get_main :: "Arc \<Rightarrow> outcome" where
  "get_main self =
    transact self ''arc_get_main''
      (PDict [(''device_id'', arc_id self)])
      Default_timeout (data_field ''value'')"

definition get_main_voltage :: "Arc \<Rightarrow> outcome" where
  "get_main_voltage self =
    transact self ''arc_get_main_voltage''
      (PDict [(''device_id'', arc_id self)])
      Default_timeout (data_field ''value'')"

definition get_max_current :: "Arc \<Rightarrow> outcome" where
  "get_max_current self =
    transact self ''arc_get_max_current''
      (PDict [(''device_id'', arc_id self)])
      Default_timeout (data_field ''value'')"

definition get_range :: "Arc \<Rightarrow> outcome" where
  "get_range self =
    transact self ''arc_get_range''
      (PDict [(''device_id'', arc_id self)])
      Default_timeout (data_field ''range'')"

definition get_rx :: "Arc \<Rightarrow> outcome" where
  "get_rx self =
    transact self ''arc_get_rx''
      (PDict [(''device_id'', arc_id self)])
      Default_timeout (data_field ''value'')"

definition get_src_cur_limit_enabled :: "Arc \<Rightarrow> outcome" where
  "get_src_cur_limit_enabled self =
    transact self ''arc_get_src_cur_limit_enabled''
      (PDict [(''device_id'', arc_id self)])
      Default_timeout (data_field ''enabled'')"

definition get_supplies :: "Arc \<Rightarrow> outcome" where
  "get_supplies self =
    transact self ''arc_get_supplies''
      (PDict [(''device_id'', arc_id self)])
      Default_timeout (data_field ''supplies'')"

definition get_supply :: "Arc \<Rightarrow> outcome" where
  "get_supply self =
    transact self ''arc_get_supply''
      (PDict [(''device_id'', arc_id self)])
      Default_timeout (data_field ''supply_id'')"

definition get_supply_parallel :: "Arc \<Rightarrow> outcome" where
  "get_supply_parallel self =
    transact self ''arc_get_supply_parallel''
      (PDict [(''device_id'', arc_id self)])
      Default_timeout (data_field ''value'')"

definition get_supply_series :: "Arc \<Rightarrow> outcome" where
  "get_supply_series self =
    transact self ''arc_get_supply_series''
      (PDict [(''device_id'', arc_id self)])
      Default_timeout (data_field ''value'')"

definition get_supply_soc_tracking :: "Arc \<Rightarrow> outcome" where
  "get_supply_soc_tracking self =
    transact self ''arc_get_supply_soc_tracking''
      (PDict [(''device_id'', arc_id self)])
      Default_timeout (data_field ''enabled'')"

definition get_supply_used_capacity :: "Arc \<Rightarrow> outcome" where
  "get_supply_used_capacity self =
    transact self ''arc_get_supply_used_capacity''
      (PDict [(''device_id'', arc_id self)])
      Default_timeout (data_field ''value'')"

definition get_uart_baudrate :: "Arc \<Rightarrow> outcome" where
  "get_uart_baudrate self =
    transact self ''arc_get_uart_baudrate''
      (PDict [(''device_id'', arc_id self)])
      Default_timeout (data_field ''value'')"

definition get_value :: "Arc \<Rightarrow> pyval \<Rightarrow> outcome" where
  "get_value self channel =
    (case attr_value channel of
       Inl e \<Rightarrow> (Inl e, self)
     | Inr channel_value \<Rightarrow>
         transact self ''arc_get_value''
           (PDict [(''device_id'', arc_id self), (''channel'', channel_value)])
           Default_timeout (data_field ''value''))"

definition get_version :: "Arc \<Rightarrow> outcome" where
  "get_version self =
    transact self ''arc_get_version''
      (PDict [(''device_id'', arc_id self)])
      Default_timeout (\<lambda>response. subscript response ''data'')"

definition is_connected :: "Arc \<Rightarrow> outcome" where
  "is_connected self =
    transact self ''arc_is_connected''
      (PDict [(''device_id'', arc_id self)])
      Default_timeout (data_field ''connected'')"

definition toggle_4wire :: "Arc \<Rightarrow> pyval \<Rightarrow> outcome" where
  "toggle_4wire self toggle =
    (case attr_value toggle of
       Inl e \<Rightarrow> (Inl e, self)
     | Inr toggle_value \<Rightarrow>
         transact self ''arc_set_4wire''
           (PDict [(''device_id'', arc_id self), (''enable'', toggle_value)])
           Default_timeout no_return)"

definition enable_4wire :: "Arc \<Rightarrow> outcome" where
  "enable_4wire self = expr_stmt (toggle_4wire self (PToggle ON))"

definition disable_4wire :: "Arc \<Rightarrow> outcome" where
  "disable_4wire self = expr_stmt (toggle_4wire self (PToggle OFF))"

definition set_adc_resistor :: "Arc \<Rightarrow> pyval \<Rightarrow> outcome" where
  "set_adc_resistor self v =
    transact self ''arc_set_adc_resistor''
      (PDict [(''device_id'', arc_id self), (''value'', v)])
      Default_timeout no_return"

definition set_battery_profile :: "Arc \<Rightarrow> pyval \<Rightarrow> outcome" where
  "set_battery_profile self v =
    transact self ''arc_set_battery_profile''
      (PDict [(''device_id'', arc_id self), (''value'', v)])
      Default_timeout no_return"

text \<open>
  \<open>set_channel_samplerate\<close> writes \<open>{"device_id": self.id, "channel": channel, "value": value.value}\<close>:
  the channel goes into the dictionary as it is, and the attribute access is on the
  second argument.
\<close>

definition set_channel_samplerate :: "Arc \<Rightarrow> pyval \<Rightarrow> pyval \<Rightarrow> outcome" where
  "set_channel_samplerate self channel v =
    (case attr_value v of
       Inl e \<Rightarrow> (Inl e, self)
     | Inr value_value \<Rightarrow>
         transact self ''arc_set_channel_samplerate''
           (PDict [(''device_id'', arc_id self), (''channel'', channel), (''value'', value_value)])
           Default_timeout no_return)"

definition set_exp_voltage :: "Arc \<Rightarrow> pyval \<Rightarrow> outcome" where
  "set_exp_voltage self v =
    transact self ''arc_set_exp_voltage''
      (PDict [(''device_id'', arc_id self), (''value'', v)])
      Default_timeout no_return"

definition toggle_gpo :: "Arc \<Rightarrow> pyval \<Rightarrow> pyval \<Rightarrow> outcome" where
  "toggle_gpo self pin toggle =
    (case attr_value toggle of
       Inl e \<Rightarrow> (Inl e, self)
     | Inr toggle_value \<Rightarrow>
         transact self ''arc_set_gpo''
           (PDict [(''device_id'', arc_id self), (''pin'', pin), (''value'', toggle_value)])
           Default_timeout no_return)"

definition enable_gpo :: "Arc \<Rightarrow> pyval \<Rightarrow> outcome" where
  "enable_gpo self pin = expr_stmt (toggle_gpo self pin (PToggle ON))"

definition disable_gpo :: "Arc \<Rightarrow> pyval \<Rightarrow> outcome" where
  "disable_gpo self pin = expr_stmt (toggle_gpo self pin (PToggle OFF))"

definition toggle_main :: "Arc \<Rightarrow> pyval \<Rightarrow> outcome" where
  "toggle_main self toggle =
    (case attr_value toggle of
       Inl e \<Rightarrow> (Inl e, self)
     | Inr toggle_value \<Rightarrow>
         transact self ''arc_set_main''
           (PDict [(''device_id'', arc_id self), (''enable'', toggle_value)])
           Default_timeout no_return)"

definition enable_main :: "Arc \<Rightarrow> outcome" where
  "enable_main self = expr_stmt (toggle_main self (PToggle ON))"

definition disable_main :: "Arc \<Rightarrow> outcome" where
  "disable_main self = expr_stmt (toggle_main self (PToggle OFF))"

definition set_main_current :: "Arc \<Rightarrow> pyval \<Rightarrow> outcome" where
  "set_main_current self v =
    transact self ''arc_set_main_current''
      (PDict [(''device_id'', arc_id self), (''value'', v)])
      Default_timeout no_return"

definition set_main_voltage :: "Arc \<Rightarrow> pyval \<Rightarrow> outcome" where
  "set_main_voltage self v =
    transact self ''arc_set_main_voltage''
      (PDict [(''device_id'', arc_id self), (''value'', v)])
      Default_timeout no_return"

definition set_max_current :: "Arc \<Rightarrow> pyval \<Rightarrow> outcome" where
  "set_max_current self v =
    transact self ''arc_set_max_current''
      (PDict [(''device_id'', arc_id self), (''value'', v)])
      Default_timeout no_return"

definition set_power_regulation :: "Arc \<Rightarrow> pyval \<Rightarrow> outcome" where
  "set_power_regulation self mode =
    transact self ''arc_set_power_regulation''
      (PDict [(''device_id'', arc_id self), (''mode'', mode)])
      Default_timeout no_return"

definition set_range :: "Arc \<Rightarrow> pyval \<Rightarrow> outcome" where
  "set_range self range_arg =
    transact self ''arc_set_range''
      (PDict [(''device_id'', arc_id self), (''range'', range_arg)])
      Default_timeout no_return"

definition toggle_src_cur_limit :: "Arc \<Rightarrow> pyval \<Rightarrow> outcome" where
  "toggle_src_cur_limit self toggle =
    (case attr_value toggle of
       Inl e \<Rightarrow> (Inl e, self)
     | Inr toggle_value \<Rightarrow>
         transact self ''arc_set_src_cur_limit_enabled''
           (PDict [(''device_id'', arc_id self), (''enable'', toggle_value)])
           Default_timeout no_return)"

definition enable_toggle_src_cur_limit :: "Arc \<Rightarrow> outcome" where
  "enable_toggle_src_cur_limit self = expr_stmt (toggle_src_cur_limit self (PToggle ON))"

definition disable_toggle_src_cur_limit :: "Arc \<Rightarrow> outcome" where
  "disable_toggle_src_cur_limit self = expr_stmt (toggle_src_cur_limit self (PToggle OFF))"

text \<open>
  \<open>set_supply\<close> has the defaults \<open>series = 1\<close> and \<open>parallel = 1\<close>; a caller that leaves them
  out passes \<open>PInt 1\<close>.
\<close>

definition set_supply :: "Arc \<Rightarrow> pyval \<Rightarrow> pyval \<Rightarrow> pyval \<Rightarrow> outcome" where
  "set_supply self supply_id series parallel =
    transact self ''arc_set_supply''
      (PDict [(''device_id'', arc_id self), (''supply_id'', supply_id), (''series'', series), (''parallel'', parallel)])
      Default_timeout no_return"

definition toggle_supply_soc_tracking :: "Arc \<Rightarrow> pyval \<Rightarrow> outcome" where
  "toggle_supply_soc_tracking self toggle =
    (case attr_value toggle of
       Inl e \<Rightarrow> (Inl e, self)
     | Inr toggle_value \<Rightarrow>
         transact self ''arc_set_supply_soc_tracking''
           (PDict [(''device_id'', arc_id self), (''enable'', toggle_value)])
           Default_timeout no_return)"

definition enable_supply_soc_tracking :: "Arc \<Rightarrow> outcome" where
  "enable_supply_soc_tracking self = expr_stmt (toggle_supply_soc_tracking self (PToggle ON))"

definition disable_supply_soc_tracking :: "Arc \<Rightarrow> outcome" where
  "disable_supply_soc_tracking self = expr_stmt (toggle_supply_soc_tracking self (PToggle OFF))"

definition set_supply_used_capacity :: "Arc \<Rightarrow> pyval \<Rightarrow> outcome" where
  "set_supply_used_capacity self v =
    transact self ''arc_set_supply_used_capacity''
      (PDict [(''device_id'', arc_id self), (''value'', v)])
      Default_timeout no_return"

definition toggle_tx :: "Arc \<Rightarrow> pyval \<Rightarrow> outcome" where
  "toggle_tx self toggle =
    (case attr_value toggle of
       Inl e \<Rightarrow> (Inl e, self)
     | Inr toggle_value \<Rightarrow>
         transact self ''arc_set_tx''
           (PDict [(''device_id'', arc_id self), (''value'', toggle_value)])
           Default_timeout no_return)"

definition enable_tx :: "Arc \<Rightarrow> outcome" where
  "enable_tx self = expr_stmt (toggle_tx self (PToggle ON))"

definition disable_tx :: "Arc \<Rightarrow> outcome" where
  "disable_tx self = expr_stmt (toggle_tx self (PToggle OFF))"

definition set_uart_baudrate :: "Arc \<Rightarrow> pyval \<Rightarrow> outcome" where
  "set_uart_baudrate self v =
    transact self ''arc_set_uart_baudrate''
      (PDict [(''device_id'', arc_id self), (''value'', v)])
      Default_timeout no_return"

text \<open>
  \<open>wait_for_battery_data\<close> computes its timeout argument \<open>60 + (timeout / 1000)\<close> after the
  request is built and before the call: the quotient first, then the sum. When either
  operator raises, nothing is sent.
\<close>

definition wait_for_battery_data :: "interpreter \<Rightarrow> Arc \<Rightarrow> pyval \<Rightarrow> outcome" where
  "wait_for_battery_data py self timeout_ms =
    (case bind_err (op_truediv py timeout_ms (PInt 1000)) (op_add py (PInt 60)) of
       Inl e \<Rightarrow> (Inl e, self)
     | Inr t \<Rightarrow>
         transact self ''arc_wait_for_battery_data''
           (PDict [(''device_id'', arc_id self), (''timeout'', timeout_ms)])
           (Timeout t) (data_field ''value''))"

definition write_tx :: "Arc \<Rightarrow> pyval \<Rightarrow> outcome" where
  "write_tx self v =
    transact self ''arc_write_tx''
      (PDict [(''device_id'', arc_id self), (''value'', v)])
      Default_timeout no_return"

definition get_property :: "Arc \<Rightarrow> pyval \<Rightarrow> outcome" where
  "get_property self name =
    transact self ''arc_get_property''
      (PDict [(''device_id'', arc_id self), (''name'', name)])
      Default_timeout (\<lambda>response. bind_err (subscript response ''data'') (\<lambda>d. dict_get d ''value'' PNone))"

definition set_property :: "Arc \<Rightarrow> pyval \<Rightarrow> pyval \<Rightarrow> outcome" where
  "set_property self name v =
    transact self ''arc_set_property''
      (PDict [(''device_id'', arc_id self), (''name'', name), (''value'', v)])
      Default_timeout no_return"

definition commit :: "Arc \<Rightarrow> outcome" where
  "commit self =
    transact self ''arc_commit''
      (PDict [(''device_id'', arc_id self)])
      Default_timeout no_return"

text \<open>\<open>firmware_upgrade\<close> has the default \<open>filename = None\<close>.\<close>

definition firmware_upgrade :: "Arc \<Rightarrow> pyval \<Rightarrow> outcome" where
  "firmware_upgrade self filename =
    transact self ''arc_firmware_upgrade''
      (PDict [(''device_id'', arc_id self), (''filename'', filename)])
      (Timeout (PInt 15)) no_return"

section \<open>Public operations\<close>

text \<open>
  A call of a public method of the handle is the method applied to its arguments, a
  function from the handle to an outcome. \<open>public_call\<close> lists them, one rule per method
  of the class in the order of arc.py, for any arguments.
\<close>

inductive public_call :: "(Arc \<Rightarrow> outcome) \<Rightarrow> bool" where
  calibrate: "public_call calibrate"
|  toggle_5v: "public_call (\<lambda>self. toggle_5v self toggle)"
|  enable_5v: "public_call enable_5v"
|  disable_5v: "public_call disable_5v"
|  toggle_battery_profiling: "public_call (\<lambda>self. toggle_battery_profiling self toggle)"
|  enable_battery_profiling: "public_call enable_battery_profiling"
|  disable_battery_profiling: "public_call disable_battery_profiling"
|  toggle_channel: "public_call (\<lambda>self. toggle_channel self channel toggle)"
|  enable_channel: "public_call (\<lambda>self. enable_channel self channel)"
|  disable_channel: "public_call (\<lambda>self. disable_channel self channel)"
|  toggle_exp_port: "public_call (\<lambda>self. toggle_exp_port self toggle)"
|  enable_exp_port: "public_call enable_exp_port"
|  disable_exp_port: "public_call disable_exp_port"
|  toggle_uart: "public_call (\<lambda>self. toggle_uart self toggle)"
|  enable_uart: "public_call enable_uart"
|  disable_uart: "public_call disable_uart"
|  get_4wire: "public_call get_4wire"
|  get_adc_resistor: "public_call get_adc_resistor"
|  get_channel_samplerate: "public_call (\<lambda>self. get_channel_samplerate self channel)"
|  get_exp_voltage: "public_call get_exp_voltage"
|  get_gpi: "public_call (\<lambda>self. get_gpi self pin)"
|  get_main: "public_call get_main"
|  get_main_voltage: "public_call get_main_voltage"
|  get_max_current: "public_call get_max_current"
|  get_range: "public_call get_range"
|  get_rx: "public_call get_rx"
|  get_src_cur_limit_enabled: "public_call get_src_cur_limit_enabled"
|  get_supplies: "public_call get_supplies"
|  get_supply: "public_call get_supply"
|  get_supply_parallel: "public_call get_supply_parallel"
|  get_supply_series: "public_call get_supply_series"
|  get_supply_soc_tracking: "public_call get_supply_soc_tracking"
|  get_supply_used_capacity: "public_call get_supply_used_capacity"
|  get_uart_baudrate: "public_call get_uart_baudrate"
|  get_value: "public_call (\<lambda>self. get_value self channel)"
|  get_version: "public_call get_version"
|  is_connected: "public_call is_connected"
|  toggle_4wire: "public_call (\<lambda>self. toggle_4wire self toggle)"
|  enable_4wire: "public_call enable_4wire"
|  disable_4wire: "public_call disable_4wire"
|  set_adc_resistor: "public_call (\<lambda>self. set_adc_resistor self v)"
|  set_battery_profile: "public_call (\<lambda>self. set_battery_profile self v)"
|  set_channel_samplerate: "public_call (\<lambda>self. set_channel_samplerate self channel v)"
|  set_exp_voltage: "public_call (\<lambda>self. set_exp_voltage self v)"
|  toggle_gpo: "public_call (\<lambda>self. toggle_gpo self pin toggle)"
|  enable_gpo: "public_call (\<lambda>self. enable_gpo self pin)"
|  disable_gpo: "public_call (\<lambda>self. disable_gpo self pin)"
|  toggle_main: "public_call (\<lambda>self. toggle_main self toggle)"
|  enable_main: "public_call enable_main"
|  disable_main: "public_call disable_main"
|  set_main_current: "public_call (\<lambda>self. set_main_current self v)"
|  set_main_voltage: "public_call (\<lambda>self. set_main_voltage self v)"
|  set_max_current: "public_call (\<lambda>self. set_max_current self v)"
|  set_power_regulation: "public_call (\<lambda>self. set_power_regulation self mode)"
|  set_range: "public_call (\<lambda>self. set_range self range_arg)"
|  toggle_src_cur_limit: "public_call (\<lambda>self. toggle_src_cur_limit self toggle)"
|  enable_toggle_src_cur_limit: "public_call enable_toggle_src_cur_limit"
|  disable_toggle_src_cur_limit: "public_call disable_toggle_src_cur_limit"
|  set_supply: "public_call (\<lambda>self. set_supply self supply_id series parallel)"
|  toggle_supply_soc_tracking: "public_call (\<lambda>self. toggle_supply_soc_tracking self toggle)"
|  enable_supply_soc_tracking: "public_call enable_supply_soc_tracking"
|  disable_supply_soc_tracking: "public_call disable_supply_soc_tracking"
|  set_supply_used_capacity: "public_call (\<lambda>self. set_supply_used_capacity self v)"
|  toggle_tx: "public_call (\<lambda>self. toggle_tx self toggle)"
|  enable_tx: "public_call enable_tx"
|  disable_tx: "public_call disable_tx"
|  set_uart_baudrate: "public_call (\<lambda>self. set_uart_baudrate self v)"
|  wait_for_battery_data: "public_call (\<lambda>self. wait_for_battery_data py self timeout_ms)"
|  write_tx: "public_call (\<lambda>self. write_tx self v)"
|  get_property: "public_call (\<lambda>self. get_property self name)"
|  set_property: "public_call (\<lambda>self. set_property self name v)"
|  commit: "public_call commit"
|  firmware_upgrade: "public_call (\<lambda>self. firmware_upgrade self filename)"

text \<open>
  What a call did on the connection: the exchanges its outcome has more than the handle it
  started from, oldest first. \<open>response_to\<close> is the response the handle's connection gives
  to a request sent next.
\<close>

definition new_exchanges :: "Arc \<Rightarrow> outcome \<Rightarrow> exchange list" where
  "new_exchanges self out =
    drop (length (exchanges (connection self))) (exchanges (connection (snd out)))"

definition response_to :: "Arc \<Rightarrow> pyval \<Rightarrow> timeout \<Rightarrow> pyval" where
  "response_to self request t = reply (connection self) (exchanges (connection self)) request t"

section \<open>What the operations are documented to return\<close>

text \<open>
  The result a method hands back on a success response, as its documentation and its
  \<open>return\<close> statement name it: nothing, one entry of the response's \<open>data\<close> payload, the
  payload itself (\<open>get_version\<close>: a "dictionary including keys hw_version and fw_version"),
  or one entry with \<open>None\<close> standing in when it is absent (\<open>get_property\<close>).
\<close>

datatype returns = Nothing | Field string | Payload | Field_or_None string

inductive documented :: "(Arc \<Rightarrow> outcome) \<Rightarrow> returns \<Rightarrow> bool" where
  calibrate: "documented calibrate Nothing"
|  toggle_5v: "documented (\<lambda>self. toggle_5v self toggle) Nothing"
|  enable_5v: "documented enable_5v Nothing"
|  disable_5v: "documented disable_5v Nothing"
|  toggle_battery_profiling: "documented (\<lambda>self. toggle_battery_profiling self toggle) Nothing"
|  enable_battery_profiling: "documented enable_battery_profiling Nothing"
|  disable_battery_profiling: "documented disable_battery_profiling Nothing"
|  toggle_channel: "documented (\<lambda>self. toggle_channel self channel toggle) Nothing"
|  enable_channel: "documented (\<lambda>self. enable_channel self channel) Nothing"
|  disable_channel: "documented (\<lambda>self. disable_channel self channel) Nothing"
|  toggle_exp_port: "documented (\<lambda>self. toggle_exp_port self toggle) Nothing"
|  enable_exp_port: "documented enable_exp_port Nothing"
|  disable_exp_port: "documented disable_exp_port Nothing"
|  toggle_uart: "documented (\<lambda>self. toggle_uart self toggle) Nothing"
|  enable_uart: "documented enable_uart Nothing"
|  disable_uart: "documented disable_uart Nothing"
|  get_4wire: "documented get_4wire (Field ''value'')"
|  get_adc_resistor: "documented get_adc_resistor (Field ''value'')"
|  get_channel_samplerate: "documented (\<lambda>self. get_channel_samplerate self channel) (Field ''value'')"
|  get_exp_voltage: "documented get_exp_voltage (Field ''value'')"
|  get_gpi: "documented (\<lambda>self. get_gpi self pin) (Field ''value'')"
|  get_main: "documented get_main (Field ''value'')"
|  get_main_voltage: "documented get_main_voltage (Field ''value'')"
|  get_max_current: "documented get_max_current (Field ''value'')"
|  get_range: "documented get_range (Field ''range'')"
|  get_rx: "documented get_rx (Field ''value'')"
|  get_src_cur_limit_enabled: "documented get_src_cur_limit_enabled (Field ''enabled'')"
|  get_supplies: "documented get_supplies (Field ''supplies'')"
|  get_supply: "documented get_supply (Field ''supply_id'')"
|  get_supply_parallel: "documented get_supply_parallel (Field ''value'')"
|  get_supply_series: "documented get_supply_series (Field ''value'')"
|  get_supply_soc_tracking: "documented get_supply_soc_tracking (Field ''enabled'')"
|  get_supply_used_capacity: "documented get_supply_used_capacity (Field ''value'')"
|  get_uart_baudrate: "documented get_uart_baudrate (Field ''value'')"
|  get_value: "documented (\<lambda>self. get_value self channel) (Field ''value'')"
|  get_version: "documented get_version Payload"
|  is_connected: "documented is_connected (Field ''connected'')"
|  toggle_4wire: "documented (\<lambda>self. toggle_4wire self toggle) Nothing"
|  enable_4wire: "documented enable_4wire Nothing"
|  disable_4wire: "documented disable_4wire Nothing"
|  set_adc_resistor: "documented (\<lambda>self. set_adc_resistor self v) Nothing"
|  set_battery_profile: "documented (\<lambda>self. set_battery_profile self v) Nothing"
|  set_channel_samplerate: "documented (\<lambda>self. set_channel_samplerate self channel v) Nothing"
|  set_exp_voltage: "documented (\<lambda>self. set_exp_voltage self v) Nothing"
|  toggle_gpo: "documented (\<lambda>self. toggle_gpo self pin toggle) Nothing"
|  enable_gpo: "documented (\<lambda>self. enable_gpo self pin) Nothing"
|  disable_gpo: "documented (\<lambda>self. disable_gpo self pin) Nothing"
|  toggle_main: "documented (\<lambda>self. toggle_main self toggle) Nothing"
|  enable_main: "documented enable_main Nothing"
|  disable_main: "documented disable_main Nothing"
|  set_main_current: "documented (\<lambda>self. set_main_current self v) Nothing"
|  set_main_voltage: "documented (\<lambda>self. set_main_voltage self v) Nothing"
|  set_max_current: "documented (\<lambda>self. set_max_current self v) Nothing"
|  set_power_regulation: "documented (\<lambda>self. set_power_regulation self mode) Nothing"
|  set_range: "documented (\<lambda>self. set_range self range_arg) Nothing"
|  toggle_src_cur_limit: "documented (\<lambda>self. toggle_src_cur_limit self toggle) Nothing"
|  enable_toggle_src_cur_limit: "documented enable_toggle_src_cur_limit Nothing"
|  disable_toggle_src_cur_limit: "documented disable_toggle_src_cur_limit Nothing"
|  set_supply: "documented (\<lambda>self. set_supply self supply_id series parallel) Nothing"
|  toggle_supply_soc_tracking: "documented (\<lambda>self. toggle_supply_soc_tracking self toggle) Nothing"
|  enable_supply_soc_tracking: "documented enable_supply_soc_tracking Nothing"
|  disable_supply_soc_tracking: "documented disable_supply_soc_tracking Nothing"
|  set_supply_used_capacity: "documented (\<lambda>self. set_supply_used_capacity self v) Nothing"
|  toggle_tx: "documented (\<lambda>self. toggle_tx self toggle) Nothing"
|  enable_tx: "documented enable_tx Nothing"
|  disable_tx: "documented disable_tx Nothing"
|  set_uart_baudrate: "documented (\<lambda>self. set_uart_baudrate self v) Nothing"
|  wait_for_battery_data: "documented (\<lambda>self. wait_for_battery_data py self timeout_ms) (Field ''value'')"
|  write_tx: "documented (\<lambda>self. write_tx self v) Nothing"
|  get_property: "documented (\<lambda>self. get_property self name) (Field_or_None ''value'')"
|  set_property: "documented (\<lambda>self. set_property self name v) Nothing"
|  commit: "documented commit Nothing"
|  firmware_upgrade: "documented (\<lambda>self. firmware_upgrade self filename) Nothing"

text \<open>
  \<open>payload\<close> is the \<open>data\<close> dictionary of a response that has one. \<open>expected\<close> is the value
  the documentation promises for a response, when the response holds it.
\<close>

fun payload :: "pyval \<Rightarrow> (string \<times> pyval) list option" where
  "payload (PDict r) = (case map_of r ''data'' of Some (PDict p) \<Rightarrow> Some p | _ \<Rightarrow> None)"
| "payload _ = None"

fun expected :: "returns \<Rightarrow> pyval \<Rightarrow> pyval option" where
  "expected Nothing response = Some PNone"
| "expected (Field k) response = (case payload response of Some p \<Rightarrow> map_of p k | None \<Rightarrow> None)"
| "expected Payload response = map_option PDict (payload response)"
| "expected (Field_or_None k) response =
     (case payload response of
        Some p \<Rightarrow> Some (case map_of p k of Some v \<Rightarrow> v | None \<Rightarrow> PNone)
      | None \<Rightarrow> None)"

text \<open>
  \<open>sent_data self out k\<close> is the entry under key \<open>k\<close> of the \<open>data\<close> mapping of the request,
  when the call sent exactly one request and the entry is there.
\<close>

fun request_data :: "exchange list \<Rightarrow> string \<Rightarrow> pyval option" where
  "request_data [(PDict r, t, response)] k =
     (case map_of r ''data'' of Some (PDict d) \<Rightarrow> map_of d k | _ \<Rightarrow> None)"
| "request_data _ k = None"

definition sent_data :: "Arc \<Rightarrow> outcome \<Rightarrow> string \<Rightarrow> pyval option" where
  "sent_data self out k = request_data (new_exchanges self out) k"

text \<open>
  A caller that makes one call after the other on the same handle and carries on after an
  exception: \<open>run_calls\<close> gives the handle after the last call.
\<close>

fun run_calls :: "(Arc \<Rightarrow> outcome) list \<Rightarrow> Arc \<Rightarrow> Arc" where
  "run_calls [] self = self"
| "run_calls (f # fs) self = run_calls fs (snd (f self))"

text \<open>
  \<open>sends f t\<close> lists the calls whose arguments have the documented types (a member of
  \<open>Toggle\<close> for a toggle, a member of \<open>Channel\<close> for a channel, an integer number of
  milliseconds for \<open>wait_for_battery_data\<close>) with the timeout argument the call is to pass.
  For \<open>wait_for_battery_data\<close> that is the sum \<open>s\<close> of 60 and the quotient \<open>q\<close> of the
  milliseconds by 1000, as the interpreter computes them, when it computes them: an
  integer too large for a float has no quotient. \<open>set_channel_samplerate\<close> is left out.
\<close>

inductive sends :: "(Arc \<Rightarrow> outcome) \<Rightarrow> timeout \<Rightarrow> bool" where
  calibrate: "sends calibrate (Timeout (PInt 10))"
|  toggle_5v: "sends (\<lambda>self. toggle_5v self (PToggle tg)) Default_timeout"
|  enable_5v: "sends enable_5v Default_timeout"
|  disable_5v: "sends disable_5v Default_timeout"
|  toggle_battery_profiling: "sends (\<lambda>self. toggle_battery_profiling self (PToggle tg)) Default_timeout"
|  enable_battery_profiling: "sends enable_battery_profiling Default_timeout"
|  disable_battery_profiling: "sends disable_battery_profiling Default_timeout"
|  toggle_channel: "sends (\<lambda>self. toggle_channel self (PChannel ch) (PToggle tg)) Default_timeout"
|  enable_channel: "sends (\<lambda>self. enable_channel self (PChannel ch)) Default_timeout"
|  disable_channel: "sends (\<lambda>self. disable_channel self (PChannel ch)) Default_timeout"
|  toggle_exp_port: "sends (\<lambda>self. toggle_exp_port self (PToggle tg)) Default_timeout"
|  enable_exp_port: "sends enable_exp_port Default_timeout"
|  disable_exp_port: "sends disable_exp_port Default_timeout"
|  toggle_uart: "sends (\<lambda>self. toggle_uart self (PToggle tg)) Default_timeout"
|  enable_uart: "sends enable_uart Default_timeout"
|  disable_uart: "sends disable_uart Default_timeout"
|  get_4wire: "sends get_4wire Default_timeout"
|  get_adc_resistor: "sends get_adc_resistor Default_timeout"
|  get_channel_samplerate: "sends (\<lambda>self. get_channel_samplerate self (PChannel ch)) Default_timeout"
|  get_exp_voltage: "sends get_exp_voltage Default_timeout"
|  get_gpi: "sends (\<lambda>self. get_gpi self pin) Default_timeout"
|  get_main: "sends get_main Default_timeout"
|  get_main_voltage: "sends get_main_voltage Default_timeout"
|  get_max_current: "sends get_max_current Default_timeout"
|  get_range: "sends get_range Default_timeout"
|  get_rx: "sends get_rx Default_timeout"
|  get_src_cur_limit_enabled: "sends get_src_cur_limit_enabled Default_timeout"
|  get_supplies: "sends get_supplies Default_timeout"
|  get_supply: "sends get_supply Default_timeout"
|  get_supply_parallel: "sends get_supply_parallel Default_timeout"
|  get_supply_series: "sends get_supply_series Default_timeout"
|  get_supply_soc_tracking: "sends get_supply_soc_tracking Default_timeout"
|  get_supply_used_capacity: "sends get_supply_used_capacity Default_timeout"
|  get_uart_baudrate: "sends get_uart_baudrate Default_timeout"
|  get_value: "sends (\<lambda>self. get_value self (PChannel ch)) Default_timeout"
|  get_version: "sends get_version Default_timeout"
|  is_connected: "sends is_connected Default_timeout"
|  toggle_4wire: "sends (\<lambda>self. toggle_4wire self (PToggle tg)) Default_timeout"
|  enable_4wire: "sends enable_4wire Default_timeout"
|  disable_4wire: "sends disable_4wire Default_timeout"
|  set_adc_resistor: "sends (\<lambda>self. set_adc_resistor self v) Default_timeout"
|  set_battery_profile: "sends (\<lambda>self. set_battery_profile self v) Default_timeout"
|  set_exp_voltage: "sends (\<lambda>self. set_exp_voltage self v) Default_timeout"
|  toggle_gpo: "sends (\<lambda>self. toggle_gpo self pin (PToggle tg)) Default_timeout"
|  enable_gpo: "sends (\<lambda>self. enable_gpo self pin) Default_timeout"
|  disable_gpo: "sends (\<lambda>self. disable_gpo self pin) Default_timeout"
|  toggle_main: "sends (\<lambda>self. toggle_main self (PToggle tg)) Default_timeout"
|  enable_main: "sends enable_main Default_timeout"
|  disable_main: "sends disable_main Default_timeout"
|  set_main_current: "sends (\<lambda>self. set_main_current self v) Default_timeout"
|  set_main_voltage: "sends (\<lambda>self. set_main_voltage self v) Default_timeout"
|  set_max_current: "sends (\<lambda>self. set_max_current self v) Default_timeout"
|  set_power_regulation: "sends (\<lambda>self. set_power_regulation self mode) Default_timeout"
|  set_range: "sends (\<lambda>self. set_range self range_arg) Default_timeout"
|  toggle_src_cur_limit: "sends (\<lambda>self. toggle_src_cur_limit self (PToggle tg)) Default_timeout"
|  enable_toggle_src_cur_limit: "sends enable_toggle_src_cur_limit Default_timeout"
|  disable_toggle_src_cur_limit: "sends disable_toggle_src_cur_limit Default_timeout"
|  set_supply: "sends (\<lambda>self. set_supply self supply_id series parallel) Default_timeout"
|  toggle_supply_soc_tracking: "sends (\<lambda>self. toggle_supply_soc_tracking self (PToggle tg)) Default_timeout"
|  enable_supply_soc_tracking: "sends enable_supply_soc_tracking Default_timeout"
|  disable_supply_soc_tracking: "sends disable_supply_soc_tracking Default_timeout"
|  set_supply_used_capacity: "sends (\<lambda>self. set_supply_used_capacity self v) Default_timeout"
|  toggle_tx: "sends (\<lambda>self. toggle_tx self (PToggle tg)) Default_timeout"
|  enable_tx: "sends enable_tx Default_timeout"
|  disable_tx: "sends disable_tx Default_timeout"
|  set_uart_baudrate: "sends (\<lambda>self. set_uart_baudrate self v) Default_timeout"
|  wait_for_battery_data:
    "op_truediv py (PInt ms) (PInt 1000) = Inr q \<Longrightarrow> op_add py (PInt 60) q = Inr s \<Longrightarrow>
     sends (\<lambda>self. wait_for_battery_data py self (PInt ms)) (Timeout s)"
|  write_tx: "sends (\<lambda>self. write_tx self v) Default_timeout"
|  get_property: "sends (\<lambda>self. get_property self name) Default_timeout"
|  set_property: "sends (\<lambda>self. set_property self name v) Default_timeout"
|  commit: "sends commit Default_timeout"
|  firmware_upgrade: "sends (\<lambda>self. firmware_upgrade self filename) (Timeout (PInt 15))"

section \<open>Sample handles\<close>

text \<open>
  Three connections for concrete runs: one that answers every request with a success
  response without payload, one that answers with an error response, and one that answers
  with a version payload of three entries. \<open>sample_arc\<close> builds a handle on a connection.
\<close>

definition ok_response :: pyval where
  "ok_response = PDict [(''type'', PStr ''response''), (''data'', PDict [])]"

definition error_response :: pyval where
  "error_response =
    PDict [(''type'', PStr ''error''), (''errorcode'', PStr ''Invalid value''), (''data'', PDict [])]"

definition version_response :: pyval where
  "version_response =
    PDict [(''type'', PStr ''response''),
           (''data'', PDict [(''hw_version'', PStr ''1.0.3''), (''fw_version'', PStr ''1.1.6''),
                            (''build'', PInt 7)])]"

definition answering :: "pyval \<Rightarrow> connection" where
  "answering response = \<lparr>reply = (\<lambda>past request t. response), exchanges = []\<rparr>"

definition sample_arc :: "connection \<Rightarrow> Arc" where
  "sample_arc conn =
    \<lparr>arc_type = PStr ''Arc'', arc_id = PStr ''dev0'', arc_name = PStr ''Arc 1'', connection = conn\<rparr>"

definition sample_dict :: pyval where
  "sample_dict = PDict [(''type'', PStr ''Arc''), (''device_id'', PStr ''dev0''), (''name'', PStr ''Arc 1'')]"

section \<open>Properties of an outcome\<close>

text \<open>
  Properties used in the proofs. A return expression is plain when it never raises the
  device exception itself. An outcome obeys \<open>otii_law\<close> when it is the device exception
  carrying \<open>r\<close> exactly if the call made one exchange whose response \<open>r\<close> is an error
  response. It obeys \<open>frame\<close> when the handle it leaves differs from the one it started
  from in the exchanges of the connection only. A list of exchanges is \<open>enveloped\<close> for an
  identifier when each request in it has the envelope shape and carries the identifier.
  \<open>returns_law\<close> and \<open>key_law\<close> say what the outcome is on a success response: the
  documented value when the response holds it, a \<open>KeyError\<close> when the payload lacks the
  key.
\<close>

definition plain_return :: "(pyval \<Rightarrow> error + pyval) \<Rightarrow> bool" where
  "plain_return ret = (\<forall>x r. ret x \<noteq> Inl (Otii_Exception r))"

definition otii_law :: "Arc \<Rightarrow> outcome \<Rightarrow> bool" where
  "otii_law self out \<longleftrightarrow> (\<forall>r. fst out = Inl (Otii_Exception r) \<longleftrightarrow>
     (\<exists>req t. new_exchanges self out = [(req, t, r)] \<and> subscript r ''type'' = Inr (PStr ''error'')))"

definition frame :: "Arc \<Rightarrow> outcome \<Rightarrow> bool" where
  "frame self out \<longleftrightarrow>
     arc_type (snd out) = arc_type self \<and> arc_id (snd out) = arc_id self \<and>
     arc_name (snd out) = arc_name self \<and>
     connection (snd out) =
       (connection self)\<lparr>exchanges := exchanges (connection self) @ new_exchanges self out\<rparr>"

definition enveloped :: "pyval \<Rightarrow> exchange list \<Rightarrow> bool" where
  "enveloped ident xs \<longleftrightarrow>
     (\<forall>(req, t, resp) \<in> set xs.
        \<exists>cmd d. req = PDict [(''type'', PStr ''request''), (''cmd'', PStr cmd), (''data'', PDict d)] \<and>
                map_of d ''device_id'' = Some ident)"

definition returns_law :: "Arc \<Rightarrow> outcome \<Rightarrow> returns \<Rightarrow> bool" where
  "returns_law self out ret \<longleftrightarrow>
     (\<forall>req t resp ty v.
        new_exchanges self out = [(req, t, resp)] \<longrightarrow> subscript resp ''type'' = Inr ty \<longrightarrow>
        ty \<noteq> PStr ''error'' \<longrightarrow> expected ret resp = Some v \<longrightarrow> fst out = Inr v)"

definition key_law :: "Arc \<Rightarrow> outcome \<Rightarrow> string \<Rightarrow> bool" where
  "key_law self out k \<longleftrightarrow>
     (\<forall>req t resp ty p.
        new_exchanges self out = [(req, t, resp)] \<longrightarrow> subscript resp ''type'' = Inr ty \<longrightarrow>
        ty \<noteq> PStr ''error'' \<longrightarrow> payload resp = Some p \<longrightarrow> map_of p k = None \<longrightarrow>
        fst out = Inl (KeyError k))"

section \<open>Facts about the shared body\<close>

lemmas method_defs =
  calibrate_def toggle_5v_def enable_5v_def disable_5v_def toggle_battery_profiling_def
  enable_battery_profiling_def disable_battery_profiling_def toggle_channel_def
  enable_channel_def disable_channel_def toggle_exp_port_def enable_exp_port_def
  disable_exp_port_def toggle_uart_def enable_uart_def disable_uart_def get_4wire_def
  get_adc_resistor_def get_channel_samplerate_def get_exp_voltage_def get_gpi_def get_main_def
  get_main_voltage_def get_max_current_def get_range_def get_rx_def
  get_src_cur_limit_enabled_def get_supplies_def get_supply_def get_supply_parallel_def
  get_supply_series_def get_supply_soc_tracking_def get_supply_used_capacity_def
  get_uart_baudrate_def get_value_def get_version_def is_connected_def toggle_4wire_def
  enable_4wire_def disable_4wire_def set_adc_resistor_def set_battery_profile_def
  set_channel_samplerate_def set_exp_voltage_def toggle_gpo_def enable_gpo_def disable_gpo_def
  toggle_main_def enable_main_def disable_main_def set_main_current_def set_main_voltage_def
  set_max_current_def set_power_regulation_def set_range_def toggle_src_cur_limit_def
  enable_toggle_src_cur_limit_def disable_toggle_src_cur_limit_def set_supply_def
  toggle_supply_soc_tracking_def enable_supply_soc_tracking_def
  disable_supply_soc_tracking_def set_supply_used_capacity_def toggle_tx_def enable_tx_def
  disable_tx_def set_uart_baudrate_def wait_for_battery_data_def write_tx_def get_property_def
  set_property_def commit_def firmware_upgrade_def

lemma transact_eq:
  "transact self cmd data t ret =
    (raise_if_error (response_to self (make_request cmd data) t)
       (ret (response_to self (make_request cmd data) t)),
     self\<lparr>connection := (connection self)\<lparr>exchanges := exchanges (connection self) @
        [(make_request cmd data, t, response_to self (make_request cmd data) t)]\<rparr>\<rparr>)"
  by (simp add: transact_def send_and_receive_def response_to_def Let_def)

lemma fst_transact:
  "fst (transact self cmd data t ret) =
    raise_if_error (response_to self (make_request cmd data) t)
       (ret (response_to self (make_request cmd data) t))"
  by (simp add: transact_eq)

lemma new_exchanges_transact:
  "new_exchanges self (transact self cmd data t ret) =
    [(make_request cmd data, t, response_to self (make_request cmd data) t)]"
  by (simp add: transact_eq new_exchanges_def)

lemma new_exchanges_raise: "new_exchanges self (x, self) = []"
  by (simp add: new_exchanges_def)

lemma new_exchanges_expr_stmt: "new_exchanges self (expr_stmt out) = new_exchanges self out"
  by (cases out rule: expr_stmt.cases) (simp_all add: new_exchanges_def)

lemma snd_expr_stmt: "snd (expr_stmt out) = snd out"
  by (cases out rule: expr_stmt.cases) simp_all

lemma py_eq_str_iff: "py_eq_str ty s \<longleftrightarrow> ty = PStr s"
  by (cases ty) auto

lemma attr_value_error: "attr_value x = Inl e \<Longrightarrow> e = AttributeError"
  by (cases x) simp_all

subsection \<open>Only an error response raises the device exception\<close>

lemma subscript_not_otii: "subscript x k \<noteq> Inl (Otii_Exception r)"
  by (cases x) (simp_all split: option.splits)

lemma dict_get_not_otii: "dict_get x k d \<noteq> Inl (Otii_Exception r)"
  by (cases x) (simp_all split: option.splits)

lemma bind_err_not_otii:
  "m \<noteq> Inl (Otii_Exception r) \<Longrightarrow> (\<And>x. g x \<noteq> Inl (Otii_Exception r)) \<Longrightarrow>
   bind_err m g \<noteq> Inl (Otii_Exception r)"
  by (cases m) simp_all

lemma plain_returns:
  "plain_return no_return"
  "plain_return (data_field k)"
  "plain_return (\<lambda>response. subscript response ''data'')"
  "plain_return (\<lambda>response. bind_err (subscript response ''data'') (\<lambda>d. dict_get d ''value'' PNone))"
  by (simp_all add: plain_return_def no_return_def data_field_def subscript_not_otii
        dict_get_not_otii bind_err_not_otii)

lemma raise_if_error_otii:
  "plain_return ret \<Longrightarrow>
   raise_if_error resp (ret resp) = Inl (Otii_Exception r) \<longleftrightarrow>
     r = resp \<and> subscript resp ''type'' = Inr (PStr ''error'')"
  by (cases "subscript resp ''type''")
     (auto simp: raise_if_error_def plain_return_def py_eq_str_iff subscript_not_otii)

lemma otii_law_transact: "plain_return ret \<Longrightarrow> otii_law self (transact self cmd data t ret)"
  by (auto simp: otii_law_def new_exchanges_transact fst_transact raise_if_error_otii)


lemma otii_law_attr: "attr_value x = Inl e \<Longrightarrow> otii_law self (Inl e, self)"
  by (auto simp: otii_law_def new_exchanges_raise dest: attr_value_error)

lemma sends_exchange:
  "sends f t \<Longrightarrow> \<exists>req. new_exchanges self (f self) = [(req, t, response_to self req t)]"
  by (erule sends.cases)
     (simp_all add: method_defs new_exchanges_transact new_exchanges_expr_stmt)


text \<open>
  \<open>set_channel_samplerate\<close>, whatever its arguments, raises the device exception only on
  an error response to a request it sent.
\<close>

lemma set_channel_samplerate_otii_law: "otii_law self (set_channel_samplerate self channel v)"
  by (auto simp: set_channel_samplerate_def plain_returns otii_law_transact otii_law_attr
        split: sum.splits)



subsection \<open>The channel enumeration\<close>

text \<open>
  C5. Every member of \<open>Channel\<close> has its documented two-letter code, and the thirteen
  members listed are all there are.
\<close>

theorem Channel_codes:
  "Channel_value MAIN_CURRENT = ''mc'' \<and> Channel_value MAIN_VOLTAGE = ''mv'' \<and>
   Channel_value MAIN_ENERGY = ''me'' \<and> Channel_value ADC_CURRENT = ''ac'' \<and>
   Channel_value ADC_VOLTAGE = ''av'' \<and> Channel_value ADC_ENERGY = ''ae'' \<and>
   Channel_value SENSE_MINUS_VOLTAGE = ''sn'' \<and> Channel_value SENSE_PLUS_VOLTAGE = ''sp'' \<and>
   Channel_value VBUS = ''vb'' \<and> Channel_value TEMPERATURE = ''tp'' \<and>
   Channel_value UART_LOGS = ''rx'' \<and> Channel_value GPI_1 = ''i1'' \<and>
   Channel_value GPI_2 = ''i2'' \<and>
   (UNIV :: Channel set) =
     {MAIN_CURRENT, MAIN_VOLTAGE, MAIN_ENERGY, ADC_CURRENT, ADC_VOLTAGE, ADC_ENERGY,
      SENSE_MINUS_VOLTAGE, SENSE_PLUS_VOLTAGE, VBUS, TEMPERATURE, UART_LOGS, GPI_1, GPI_2}"
proof -
  have "c \<in> {MAIN_CURRENT, MAIN_VOLTAGE, MAIN_ENERGY, ADC_CURRENT, ADC_VOLTAGE, ADC_ENERGY,
      SENSE_MINUS_VOLTAGE, SENSE_PLUS_VOLTAGE, VBUS, TEMPERATURE, UART_LOGS, GPI_1, GPI_2}" for c
    by (cases c) simp_all
  then show ?thesis by auto
qed

subsection \<open>The request envelope\<close>

lemma new_exchanges_envelope:
  "new_exchanges self (transact self cmd data t ret) =
     [(PDict [(''type'', PStr ''request''), (''cmd'', PStr cmd), (''data'', data)], t,
       response_to self (make_request cmd data) t)]"
  by (simp add: new_exchanges_transact make_request_def)

lemma public_call_envelope:
  "public_call f \<Longrightarrow> (req, t, resp) \<in> set (new_exchanges self (f self)) \<Longrightarrow>
   \<exists>cmd d. req = PDict [(''type'', PStr ''request''), (''cmd'', PStr cmd), (''data'', PDict d)] \<and>
           map_of d ''device_id'' = Some (arc_id self)"
  by (erule public_call.cases)
     (auto simp: method_defs new_exchanges_envelope new_exchanges_expr_stmt new_exchanges_raise
        split: sum.splits)

text \<open>
  C6. For every public operation, every request the call sends is the dictionary with
  exactly the entries \<open>type\<close> (the string \<open>request\<close>), \<open>cmd\<close> (a command name) and \<open>data\<close>,
  in this order, and the \<open>data\<close> dictionary holds the handle's identifier under
  \<open>device_id\<close>.
\<close>

theorem request_envelope:
  "public_call f \<Longrightarrow>
   \<forall>(req, t, resp) \<in> set (new_exchanges self (f self)).
     \<exists>cmd d. req = PDict [(''type'', PStr ''request''), (''cmd'', PStr cmd), (''data'', PDict d)] \<and>
             map_of d ''device_id'' = Some (arc_id self)"
  using public_call_envelope [of f _ _ _ self] by auto

theorem request_envelope_witness:
  "public_call (\<lambda>self. set_supply self (PInt 2) (PInt 1) (PInt 1)) \<and>
   (\<exists>cmd d.
      map fst (new_exchanges (sample_arc (answering ok_response))
        (set_supply (sample_arc (answering ok_response)) (PInt 2) (PInt 1) (PInt 1))) =
        [PDict [(''type'', PStr ''request''), (''cmd'', PStr cmd), (''data'', PDict d)]] \<and>
      map_of d ''device_id'' = Some (PStr ''dev0''))"
proof -
  have pc: "public_call (\<lambda>self. set_supply self (PInt 2) (PInt 1) (PInt 1))"
    by (rule public_call.set_supply)
  have one: "length (new_exchanges (sample_arc (answering ok_response))
        (set_supply (sample_arc (answering ok_response)) (PInt 2) (PInt 1) (PInt 1))) = 1"
    by (simp add: set_supply_def new_exchanges_transact)
  have ident: "arc_id (sample_arc (answering ok_response)) = PStr ''dev0''"
    by (simp add: sample_arc_def)
  from one obtain x where x: "new_exchanges (sample_arc (answering ok_response))
        (set_supply (sample_arc (answering ok_response)) (PInt 2) (PInt 1) (PInt 1)) = [x]"
    by (auto simp: length_Suc_conv)
  from request_envelope [OF pc, of "sample_arc (answering ok_response)"] x ident pc
  show ?thesis by (cases x) auto
qed

subsection \<open>Toggles on the wire\<close>

lemma Toggle_value_iff: "Toggle_value tg \<longleftrightarrow> tg = ON"
  by (cases tg) simp_all

lemma sent_data_transact:
  "sent_data self (transact self cmd (PDict d) t ret) k = map_of d k"
  by (simp add: sent_data_def new_exchanges_envelope)

text \<open>
  C4. \<open>Toggle.ON\<close> has the value \<open>True\<close> and \<open>Toggle.OFF\<close> the value \<open>False\<close>, and each of the
  eleven methods that take a toggle sends one request whose \<open>data\<close> carries the boolean
  \<open>True\<close> for \<open>Toggle.ON\<close> and \<open>False\<close> for \<open>Toggle.OFF\<close>: under \<open>enable\<close>, and under \<open>value\<close>
  for \<open>toggle_gpo\<close> and \<open>toggle_tx\<close>.
\<close>

theorem toggle_on_the_wire:
  "Toggle_value ON = True \<and> Toggle_value OFF = False \<and>
   sent_data self (toggle_5v self (PToggle tg)) ''enable'' = Some (PBool (tg = ON)) \<and>
   sent_data self (toggle_battery_profiling self (PToggle tg)) ''enable'' = Some (PBool (tg = ON)) \<and>
   sent_data self (toggle_channel self (PChannel ch) (PToggle tg)) ''enable'' = Some (PBool (tg = ON)) \<and>
   sent_data self (toggle_exp_port self (PToggle tg)) ''enable'' = Some (PBool (tg = ON)) \<and>
   sent_data self (toggle_uart self (PToggle tg)) ''enable'' = Some (PBool (tg = ON)) \<and>
   sent_data self (toggle_4wire self (PToggle tg)) ''enable'' = Some (PBool (tg = ON)) \<and>
   sent_data self (toggle_gpo self pin (PToggle tg)) ''value'' = Some (PBool (tg = ON)) \<and>
   sent_data self (toggle_main self (PToggle tg)) ''enable'' = Some (PBool (tg = ON)) \<and>
   sent_data self (toggle_src_cur_limit self (PToggle tg)) ''enable'' = Some (PBool (tg = ON)) \<and>
   sent_data self (toggle_supply_soc_tracking self (PToggle tg)) ''enable'' = Some (PBool (tg = ON)) \<and>
   sent_data self (toggle_tx self (PToggle tg)) ''value'' = Some (PBool (tg = ON))"
  by (simp add: toggle_5v_def toggle_battery_profiling_def toggle_channel_def
        toggle_exp_port_def toggle_uart_def toggle_4wire_def toggle_gpo_def toggle_main_def
        toggle_src_cur_limit_def toggle_supply_soc_tracking_def toggle_tx_def
        sent_data_transact Toggle_value_iff)

text \<open>The convenience methods pass the same booleans.\<close>

lemma enable_disable_on_the_wire:
  "sent_data self (enable_5v self) ''enable'' = Some (PBool True)"
  "sent_data self (disable_5v self) ''enable'' = Some (PBool False)"
  "sent_data self (enable_channel self (PChannel ch)) ''enable'' = Some (PBool True)"
  "sent_data self (disable_channel self (PChannel ch)) ''enable'' = Some (PBool False)"
  "sent_data self (enable_gpo self pin) ''value'' = Some (PBool True)"
  "sent_data self (disable_gpo self pin) ''value'' = Some (PBool False)"
  "sent_data self (enable_tx self) ''value'' = Some (PBool True)"
  "sent_data self (disable_tx self) ''value'' = Some (PBool False)"
  by (simp_all add: enable_5v_def disable_5v_def enable_channel_def disable_channel_def
        enable_gpo_def disable_gpo_def enable_tx_def disable_tx_def
        toggle_5v_def toggle_channel_def toggle_gpo_def toggle_tx_def
        sent_data_def new_exchanges_expr_stmt new_exchanges_envelope)

subsection \<open>Setters forward their argument unchecked\<close>

text \<open>
  C8. For every value \<open>v\<close>, in range or not, \<open>set_adc_resistor\<close>, \<open>set_exp_voltage\<close> and
  \<open>set_max_current\<close> send exactly one request, whose \<open>data\<close> is the device identifier and
  \<open>v\<close> unchanged under \<open>value\<close>. The outcome is decided by the response alone: the device
  exception carrying the response when its \<open>type\<close> is \<open>error\<close>, \<open>None\<close> for any other \<open>type\<close>;
  the only other failure is a response without a \<open>type\<close> entry.
\<close>

theorem setters_forward_unchecked:
  "new_exchanges self (set_adc_resistor self v) =
     [(PDict [(''type'', PStr ''request''), (''cmd'', PStr ''arc_set_adc_resistor''),
              (''data'', PDict [(''device_id'', arc_id self), (''value'', v)])],
       Default_timeout,
       response_to self (make_request ''arc_set_adc_resistor''
          (PDict [(''device_id'', arc_id self), (''value'', v)])) Default_timeout)] \<and>
   fst (set_adc_resistor self v) =
     (let resp = response_to self (make_request ''arc_set_adc_resistor''
          (PDict [(''device_id'', arc_id self), (''value'', v)])) Default_timeout
      in case subscript resp ''type'' of
           Inl e \<Rightarrow> Inl e
         | Inr ty \<Rightarrow> if ty = PStr ''error'' then Inl (Otii_Exception resp) else Inr PNone) \<and>
   new_exchanges self (set_exp_voltage self v) =
     [(PDict [(''type'', PStr ''request''), (''cmd'', PStr ''arc_set_exp_voltage''),
              (''data'', PDict [(''device_id'', arc_id self), (''value'', v)])],
       Default_timeout,
       response_to self (make_request ''arc_set_exp_voltage''
          (PDict [(''device_id'', arc_id self), (''value'', v)])) Default_timeout)] \<and>
   fst (set_exp_voltage self v) =
     (let resp = response_to self (make_request ''arc_set_exp_voltage''
          (PDict [(''device_id'', arc_id self), (''value'', v)])) Default_timeout
      in case subscript resp ''type'' of
           Inl e \<Rightarrow> Inl e
         | Inr ty \<Rightarrow> if ty = PStr ''error'' then Inl (Otii_Exception resp) else Inr PNone) \<and>
   new_exchanges self (set_max_current self v) =
     [(PDict [(''type'', PStr ''request''), (''cmd'', PStr ''arc_set_max_current''),
              (''data'', PDict [(''device_id'', arc_id self), (''value'', v)])],
       Default_timeout,
       response_to self (make_request ''arc_set_max_current''
          (PDict [(''device_id'', arc_id self), (''value'', v)])) Default_timeout)] \<and>
   fst (set_max_current self v) =
     (let resp = response_to self (make_request ''arc_set_max_current''
          (PDict [(''device_id'', arc_id self), (''value'', v)])) Default_timeout
      in case subscript resp ''type'' of
           Inl e \<Rightarrow> Inl e
         | Inr ty \<Rightarrow> if ty = PStr ''error'' then Inl (Otii_Exception resp) else Inr PNone)"
  by (simp add: set_adc_resistor_def set_exp_voltage_def set_max_current_def
        new_exchanges_envelope fst_transact raise_if_error_def no_return_def py_eq_str_iff Let_def
      split: sum.splits)

theorem setters_forward_unchecked_witness:
  "sent_data (sample_arc (answering ok_response))
     (set_adc_resistor (sample_arc (answering ok_response)) (PFloat 100)) ''value''
     = Some (PFloat 100) \<and>
   fst (set_adc_resistor (sample_arc (answering ok_response)) (PFloat 100)) = Inr PNone"
  using setters_forward_unchecked [of "sample_arc (answering ok_response)" "PFloat 100"]
  by (simp add: sent_data_def response_to_def sample_arc_def answering_def ok_response_def)

subsection \<open>The handle's fields are kept\<close>

lemma frame_transact: "frame self (transact self cmd data t ret)"
  by (simp add: frame_def new_exchanges_transact) (simp add: transact_eq)

lemma frame_raise: "frame self (x, self)"
  by (simp add: frame_def new_exchanges_raise)

lemma frame_expr_stmt: "frame self out \<Longrightarrow> frame self (expr_stmt out)"
  by (simp add: frame_def new_exchanges_expr_stmt snd_expr_stmt)

lemma public_call_frame: "public_call f \<Longrightarrow> frame self (f self)"
  by (erule public_call.cases)
     (auto simp: method_defs frame_transact frame_raise frame_expr_stmt split: sum.splits)

lemma public_call_enveloped:
  "public_call f \<Longrightarrow> enveloped (arc_id self) (new_exchanges self (f self))"
  unfolding enveloped_def using public_call_envelope [of f _ _ _ self] by auto

lemma enveloped_append: "enveloped i xs \<Longrightarrow> enveloped i ys \<Longrightarrow> enveloped i (xs @ ys)"
  by (auto simp: enveloped_def)

lemma run_calls_frame:
  "\<forall>f \<in> set fs. public_call f \<Longrightarrow>
   arc_type (run_calls fs self) = arc_type self \<and>
   arc_id (run_calls fs self) = arc_id self \<and>
   arc_name (run_calls fs self) = arc_name self \<and>
   (\<exists>new. connection (run_calls fs self) =
             (connection self)\<lparr>exchanges := exchanges (connection self) @ new\<rparr> \<and>
          enveloped (arc_id self) new)"
proof (induction fs arbitrary: self)
  case Nil
  have "connection self = (connection self)\<lparr>exchanges := exchanges (connection self) @ []\<rparr>"
    by simp
  moreover have "enveloped (arc_id self) []" by (simp add: enveloped_def)
  ultimately show ?case by (metis run_calls.simps(1))
next
  case (Cons f fs)
  let ?s = "snd (f self)"
  from Cons.prems have pf: "public_call f" and rest: "\<forall>g \<in> set fs. public_call g" by simp_all
  from public_call_frame [OF pf, of self]
  have ty: "arc_type ?s = arc_type self" and ident: "arc_id ?s = arc_id self"
    and nm: "arc_name ?s = arc_name self"
    and conn: "connection ?s =
      (connection self)\<lparr>exchanges := exchanges (connection self) @ new_exchanges self (f self)\<rparr>"
    by (simp_all add: frame_def)
  from Cons.IH [OF rest, of ?s] obtain new where
    fields: "arc_type (run_calls fs ?s) = arc_type ?s" "arc_id (run_calls fs ?s) = arc_id ?s"
      "arc_name (run_calls fs ?s) = arc_name ?s"
    and c: "connection (run_calls fs ?s) =
      (connection ?s)\<lparr>exchanges := exchanges (connection ?s) @ new\<rparr>"
    and env: "enveloped (arc_id ?s) new"
    by blast
  have "connection (run_calls (f # fs) self) =
      (connection self)\<lparr>exchanges := exchanges (connection self) @ (new_exchanges self (f self) @ new)\<rparr>"
    using c conn by simp
  moreover have "enveloped (arc_id self) (new_exchanges self (f self) @ new)"
    using public_call_enveloped [OF pf, of self] env ident by (simp add: enveloped_append)
  ultimately show ?case using fields ty ident nm by (metis run_calls.simps(2))
qed

lemma Arc_init_fields:
  "Arc_init device_dict conn = Inr self \<Longrightarrow>
   subscript device_dict ''type'' = Inr (arc_type self) \<and>
   subscript device_dict ''device_id'' = Inr (arc_id self) \<and>
   subscript device_dict ''name'' = Inr (arc_name self) \<and>
   connection self = conn"
  by (cases "subscript device_dict ''type''"; cases "subscript device_dict ''device_id''";
      cases "subscript device_dict ''name''")
     (auto simp: Arc_init_def)

text \<open>
  C9. A handle constructed from a device dictionary and a connection, after any sequence
  of public calls, whether they returned or raised: its fields \<open>type\<close>, \<open>id\<close> and \<open>name\<close> are
  still the dictionary's entries \<open>type\<close>, \<open>device_id\<close> and \<open>name\<close>, its connection is the
  supplied one with nothing changed but the exchanges the calls added, and every request
  among those carries the handle's identifier under \<open>device_id\<close>.
\<close>

theorem handle_fields_kept:
  "Arc_init device_dict conn = Inr self \<Longrightarrow> \<forall>f \<in> set fs. public_call f \<Longrightarrow>
   subscript device_dict ''type'' = Inr (arc_type (run_calls fs self)) \<and>
   subscript device_dict ''device_id'' = Inr (arc_id (run_calls fs self)) \<and>
   subscript device_dict ''name'' = Inr (arc_name (run_calls fs self)) \<and>
   (\<exists>new. connection (run_calls fs self) = conn\<lparr>exchanges := exchanges conn @ new\<rparr> \<and>
      (\<forall>(req, t, resp) \<in> set new.
         \<exists>cmd d. req = PDict [(''type'', PStr ''request''), (''cmd'', PStr cmd), (''data'', PDict d)] \<and>
                 map_of d ''device_id'' = Some (arc_id (run_calls fs self))))"
proof -
  assume init: "Arc_init device_dict conn = Inr self" and calls: "\<forall>f \<in> set fs. public_call f"
  note i = Arc_init_fields [OF init]
  from run_calls_frame [OF calls, of self] obtain new where
    f: "arc_type (run_calls fs self) = arc_type self" "arc_id (run_calls fs self) = arc_id self"
       "arc_name (run_calls fs self) = arc_name self"
    and c: "connection (run_calls fs self) =
       (connection self)\<lparr>exchanges := exchanges (connection self) @ new\<rparr>"
    and e: "enveloped (arc_id self) new"
    by blast
  from e f have "\<forall>(req, t, resp) \<in> set new.
         \<exists>cmd d. req = PDict [(''type'', PStr ''request''), (''cmd'', PStr cmd), (''data'', PDict d)] \<and>
                 map_of d ''device_id'' = Some (arc_id (run_calls fs self))"
    by (auto simp: enveloped_def)
  with c i f show ?thesis by auto
qed

theorem handle_fields_kept_witness:
  "Arc_init sample_dict (answering error_response) = Inr (sample_arc (answering error_response)) \<and>
   public_call calibrate \<and> public_call get_version \<and>
   arc_id (run_calls [calibrate, get_version] (sample_arc (answering error_response))) = PStr ''dev0'' \<and>
   arc_type (run_calls [calibrate, get_version] (sample_arc (answering error_response))) = PStr ''Arc'' \<and>
   arc_name (run_calls [calibrate, get_version] (sample_arc (answering error_response))) = PStr ''Arc 1''"
proof -
  have init: "Arc_init sample_dict (answering error_response) = Inr (sample_arc (answering error_response))"
    by (simp add: Arc_init_def sample_dict_def sample_arc_def)
  have pcs: "\<forall>f \<in> set [calibrate, get_version]. public_call f"
    by (simp add: public_call.calibrate public_call.get_version)
  from handle_fields_kept [OF init pcs] init pcs
  show ?thesis by (simp add: sample_dict_def)
qed

subsection \<open>What a call returns on a success response\<close>

lemma raise_if_error_success:
  "subscript resp ''type'' = Inr ty \<Longrightarrow> ty \<noteq> PStr ''error'' \<Longrightarrow> raise_if_error resp x = x"
  by (simp add: raise_if_error_def py_eq_str_iff)

lemma payload_data: "payload resp = Some p \<Longrightarrow> subscript resp ''data'' = Inr (PDict p)"
  by (cases resp) (auto split: option.splits pyval.splits)

lemma expected_Field: "expected (Field k) resp = Some v \<Longrightarrow> data_field k resp = Inr v"
  by (cases "payload resp") (auto simp: data_field_def dest: payload_data)

lemma expected_Payload: "expected Payload resp = Some v \<Longrightarrow> subscript resp ''data'' = Inr v"
  by (cases "payload resp") (auto dest: payload_data)

lemma expected_Field_or_None:
  "expected (Field_or_None k) resp = Some v \<Longrightarrow>
   bind_err (subscript resp ''data'') (\<lambda>d. dict_get d k PNone) = Inr v"
  by (cases "payload resp") (auto dest: payload_data split: option.splits)

lemma returns_law_transact:
  "(\<And>resp v. expected ret resp = Some v \<Longrightarrow> r resp = Inr v) \<Longrightarrow>
   returns_law self (transact self cmd data t r) ret"
  by (auto simp: returns_law_def new_exchanges_transact fst_transact raise_if_error_success)

lemma returns_law_raise: "returns_law self (x, self) ret"
  by (simp add: returns_law_def new_exchanges_raise)

lemma returns_law_expr_stmt:
  "returns_law self out Nothing \<Longrightarrow> returns_law self (expr_stmt out) Nothing"
  by (cases out rule: expr_stmt.cases) (simp_all add: returns_law_def new_exchanges_def)

lemma returns_law_cases:
  "returns_law self (transact self cmd data t no_return) Nothing"
  "returns_law self (transact self cmd data t (data_field k)) (Field k)"
  "returns_law self (transact self cmd data t (\<lambda>response. subscript response ''data'')) Payload"
  "returns_law self (transact self cmd data t
     (\<lambda>response. bind_err (subscript response ''data'') (\<lambda>d. dict_get d k PNone))) (Field_or_None k)"
  by (rule returns_law_transact, simp add: no_return_def expected_Field expected_Payload
        expected_Field_or_None)+

lemma documented_returns_law: "documented f ret \<Longrightarrow> returns_law self (f self) ret"
  by (erule documented.cases)
     (auto simp: method_defs returns_law_cases returns_law_raise returns_law_expr_stmt
        split: sum.splits)

lemma public_call_documented: "public_call f \<Longrightarrow> \<exists>ret. documented f ret"
  by (erule public_call.cases) (auto intro: documented.intros)

lemma documented_public_call: "documented f ret \<Longrightarrow> public_call f"
  by (erule documented.cases) (auto intro: public_call.intros)

text \<open>
  C2, as the claim states it, fails for \<open>get_version\<close>: it hands back the \<open>data\<close> payload of
  the response as it came, here with a third entry next to \<open>hw_version\<close> and \<open>fw_version\<close>.
\<close>

theorem get_version_returns_whole_payload:
  "fst (get_version (sample_arc (answering version_response))) =
     Inr (PDict [(''hw_version'', PStr ''1.0.3''), (''fw_version'', PStr ''1.1.6''), (''build'', PInt 7)]) \<and>
   fst (get_version (sample_arc (answering version_response))) \<noteq>
     Inr (PDict [(''hw_version'', PStr ''1.0.3''), (''fw_version'', PStr ''1.1.6'')])"
  by (simp add: get_version_def fst_transact raise_if_error_def response_to_def sample_arc_def
        answering_def version_response_def)

text \<open>
  C2, amended. For every public operation called with arguments of the documented types:
  the call sends one request, and when the response the connection gives to it has a
  \<open>type\<close> other than \<open>error\<close>, the call returns the value its documentation names,
  whenever the response holds it. That is \<open>None\<close> for a pure command; the entry of \<open>data\<close>
  under the documented key for a getter; the whole \<open>data\<close> dictionary, with every entry the
  server put there, for \<open>get_version\<close>; the \<open>value\<close> entry or \<open>None\<close> for \<open>get_property\<close>.
\<close>

theorem success_returns_documented:
  "documented f ret \<Longrightarrow> sends f t \<Longrightarrow>
   \<exists>req. new_exchanges self (f self) = [(req, t, response_to self req t)] \<and>
     (\<forall>ty v. subscript (response_to self req t) ''type'' = Inr ty \<longrightarrow> ty \<noteq> PStr ''error'' \<longrightarrow>
        expected ret (response_to self req t) = Some v \<longrightarrow> fst (f self) = Inr v)"
proof -
  assume d: "documented f ret" and s: "sends f t"
  from sends_exchange [OF s, of self] obtain req where
    x: "new_exchanges self (f self) = [(req, t, response_to self req t)]" ..
  from documented_returns_law [OF d, of self] x
  have "subscript (response_to self req t) ''type'' = Inr ty \<Longrightarrow> ty \<noteq> PStr ''error'' \<Longrightarrow>
        expected ret (response_to self req t) = Some v \<Longrightarrow> fst (f self) = Inr v" for ty v
    unfolding returns_law_def by blast
  with x show ?thesis by blast
qed

theorem success_returns_documented_witness:
  "documented get_supply (Field ''supply_id'') \<and> sends get_supply Default_timeout \<and>
   fst (get_supply (sample_arc (answering
      (PDict [(''type'', PStr ''response''), (''data'', PDict [(''supply_id'', PInt 3)])]))))
     = Inr (PInt 3)"
proof -
  let ?resp = "PDict [(''type'', PStr ''response''), (''data'', PDict [(''supply_id'', PInt 3)])]"
  let ?a = "sample_arc (answering ?resp)"
  have d: "documented get_supply (Field ''supply_id'')" by (rule documented.get_supply)
  have s: "sends get_supply Default_timeout" by (rule sends.get_supply)
  have r: "response_to ?a q u = ?resp" for q u
    by (simp add: response_to_def sample_arc_def answering_def)
  have ty: "subscript ?resp ''type'' = Inr (PStr ''response'')" by simp
  have ne: "PStr ''response'' \<noteq> PStr ''error''" by simp
  have e: "expected (Field ''supply_id'') ?resp = Some (PInt 3)" by simp
  from success_returns_documented [OF d s, of ?a] obtain req where
    "\<forall>ty v. subscript (response_to ?a req Default_timeout) ''type'' = Inr ty \<longrightarrow>
        ty \<noteq> PStr ''error'' \<longrightarrow>
        expected (Field ''supply_id'') (response_to ?a req Default_timeout) = Some v \<longrightarrow>
        fst (get_supply ?a) = Inr v"
    by blast
  with r ty ne e have "fst (get_supply ?a) = Inr (PInt 3)" by metis
  with d s show ?thesis by simp
qed

subsection \<open>A missing key\<close>

lemma key_law_transact: "key_law self (transact self cmd data t (data_field k)) k"
  by (auto simp: key_law_def new_exchanges_transact fst_transact raise_if_error_success
        data_field_def dest!: payload_data)

lemma key_law_raise: "key_law self (x, self) k"
  by (simp add: key_law_def new_exchanges_raise)

lemma documented_key_law: "documented f (Field k) \<Longrightarrow> key_law self (f self) k"
  by (erule documented.cases)
     (auto simp: method_defs key_law_transact key_law_raise split: sum.splits)

lemma get_property_missing:
  "new_exchanges self (get_property self name) = [(req, t, resp)] \<Longrightarrow>
   subscript resp ''type'' = Inr ty \<Longrightarrow> ty \<noteq> PStr ''error'' \<Longrightarrow>
   payload resp = Some p \<Longrightarrow> map_of p ''value'' = None \<Longrightarrow>
   fst (get_property self name) = Inr PNone"
  by (auto simp: get_property_def new_exchanges_transact fst_transact raise_if_error_success
        dest!: payload_data)

lemma get_version_any_payload:
  "new_exchanges self (get_version self) = [(req, t, resp)] \<Longrightarrow>
   subscript resp ''type'' = Inr ty \<Longrightarrow> ty \<noteq> PStr ''error'' \<Longrightarrow>
   payload resp = Some p \<Longrightarrow> fst (get_version self) = Inr (PDict p)"
  by (auto simp: get_version_def new_exchanges_transact fst_transact raise_if_error_success
        dest!: payload_data)

text \<open>
  C10, as the claim states it, fails for \<open>get_version\<close>, a getter whose documented keys are
  \<open>hw_version\<close> and \<open>fw_version\<close>: on a success response whose payload has neither, it
  returns the empty payload and does not fail.
\<close>

theorem get_version_requires_no_key:
  "payload ok_response = Some [] \<and>
   fst (get_version (sample_arc (answering ok_response))) = Inr (PDict [])"
  by (simp add: get_version_def fst_transact raise_if_error_def response_to_def sample_arc_def
        answering_def ok_response_def)

text \<open>
  C10, amended. For a getter called with arguments of the documented types: the call sends
  one request, and when the response the connection gives to it is a success response
  whose \<open>data\<close> payload lacks the key, \<open>get_property\<close> returns \<open>None\<close>; every getter that
  returns one entry of the payload (every value-returning getter but \<open>get_version\<close>) fails
  with a \<open>KeyError\<close> for its key; \<open>get_version\<close> returns the payload as it is and requires
  no key in it.
\<close>

theorem missing_key_behaviour:
  "sends f t \<Longrightarrow>
   \<exists>req. new_exchanges self (f self) = [(req, t, response_to self req t)] \<and>
     (\<forall>ty p. subscript (response_to self req t) ''type'' = Inr ty \<longrightarrow> ty \<noteq> PStr ''error'' \<longrightarrow>
        payload (response_to self req t) = Some p \<longrightarrow>
        (f = (\<lambda>self. get_property self name) \<longrightarrow> map_of p ''value'' = None \<longrightarrow>
           fst (f self) = Inr PNone) \<and>
        (documented f (Field k) \<longrightarrow> map_of p k = None \<longrightarrow> fst (f self) = Inl (KeyError k)) \<and>
        (f = get_version \<longrightarrow> fst (f self) = Inr (PDict p)))"
proof -
  assume s: "sends f t"
  from sends_exchange [OF s, of self] obtain req where
    x: "new_exchanges self (f self) = [(req, t, response_to self req t)]" ..
  let ?resp = "response_to self req t"
  have "(f = (\<lambda>self. get_property self name) \<longrightarrow> map_of p ''value'' = None \<longrightarrow>
           fst (f self) = Inr PNone) \<and>
        (documented f (Field k) \<longrightarrow> map_of p k = None \<longrightarrow> fst (f self) = Inl (KeyError k)) \<and>
        (f = get_version \<longrightarrow> fst (f self) = Inr (PDict p))"
    if "subscript ?resp ''type'' = Inr ty" "ty \<noteq> PStr ''error''" "payload ?resp = Some p"
    for ty p
    using that x get_property_missing [of self name req t ?resp ty p]
        documented_key_law [of f k self]
        get_version_any_payload [of self req t ?resp ty p]
    unfolding key_law_def by blast
  with x show ?thesis by blast
qed

theorem missing_key_behaviour_witness:
  "documented (\<lambda>self. get_gpi self (PInt 1)) (Field ''value'') \<and>
   sends (\<lambda>self. get_gpi self (PInt 1)) Default_timeout \<and>
   fst (get_gpi (sample_arc (answering ok_response)) (PInt 1)) = Inl (KeyError ''value'') \<and>
   fst (get_property (sample_arc (answering ok_response)) (PStr ''p'')) = Inr PNone \<and>
   fst (get_version (sample_arc (answering ok_response))) = Inr (PDict [])"
proof -
  let ?a = "sample_arc (answering ok_response)"
  have d: "documented (\<lambda>self. get_gpi self (PInt 1)) (Field ''value'')"
    by (rule documented.get_gpi)
  have s1: "sends (\<lambda>self. get_gpi self (PInt 1)) Default_timeout" by (rule sends.get_gpi)
  have s2: "sends (\<lambda>self. get_property self (PStr ''p'')) Default_timeout"
    by (rule sends.get_property)
  have s3: "sends get_version Default_timeout" by (rule sends.get_version)
  have ty: "subscript ok_response ''type'' = Inr (PStr ''response'')"
    by (simp add: ok_response_def)
  have ne: "PStr ''response'' \<noteq> PStr ''error''" by simp
  have p: "payload ok_response = Some []" by (simp add: ok_response_def)
  have r: "response_to ?a q u = ok_response" for q u
    by (simp add: response_to_def sample_arc_def answering_def)
  from missing_key_behaviour [OF s1, of ?a _ "''value''"] r ty ne p d
  have g1: "fst (get_gpi ?a (PInt 1)) = Inl (KeyError ''value'')" by fastforce
  from missing_key_behaviour [OF s2, of ?a "PStr ''p''"] r ty ne p
  have g2: "fst (get_property ?a (PStr ''p'')) = Inr PNone" by fastforce
  from missing_key_behaviour [OF s3, of ?a] r ty ne p
  have g3: "fst (get_version ?a) = Inr (PDict [])" by fastforce
  from d s1 g1 g2 g3 show ?thesis by simp
qed

subsection \<open>Channels on the wire\<close>

text \<open>
  The three methods that read \<open>channel.value\<close> send the channel's code under \<open>channel\<close>.
\<close>

lemma channel_code_on_the_wire:
  "sent_data self (toggle_channel self (PChannel ch) (PToggle tg)) ''channel'' = Some (PStr (Channel_value ch))"
  "sent_data self (get_channel_samplerate self (PChannel ch)) ''channel'' = Some (PStr (Channel_value ch))"
  "sent_data self (get_value self (PChannel ch)) ''channel'' = Some (PStr (Channel_value ch))"
  "sent_data self (enable_channel self (PChannel ch)) ''channel'' = Some (PStr (Channel_value ch))"
  "sent_data self (disable_channel self (PChannel ch)) ''channel'' = Some (PStr (Channel_value ch))"
  by (simp_all add: toggle_channel_def get_channel_samplerate_def get_value_def
        enable_channel_def disable_channel_def sent_data_def new_exchanges_expr_stmt
        new_exchanges_envelope)

text \<open>
  \<open>set_channel_samplerate\<close> reads \<open>value.value\<close> instead. With a sample rate that is a
  number, or any value that is not an enumeration member, it raises before anything is
  sent; with an enumeration member in the place of the rate, the channel goes out as the
  enumeration member itself, not as its code.
\<close>

lemma set_channel_samplerate_number:
  "set_channel_samplerate self channel (PInt rate) = (Inl AttributeError, self)"
  "set_channel_samplerate self channel (PFloat x) = (Inl AttributeError, self)"
  by (simp_all add: set_channel_samplerate_def)

lemma set_channel_samplerate_member:
  "sent_data self (set_channel_samplerate self (PChannel ch) (PToggle tg)) ''channel'' = Some (PChannel ch)"
  "sent_data self (set_channel_samplerate self (PChannel ch) (PToggle tg)) ''value'' = Some (PBool (tg = ON))"
  by (simp_all add: set_channel_samplerate_def sent_data_transact Toggle_value_iff)

text \<open>
  C3 fails on the code for \<open>set_channel_samplerate\<close>: called with the main current channel
  and a sample rate of 4000, it raises \<open>AttributeError\<close> and leaves the handle as it was;
  no request carries \<open>mc\<close> under \<open>channel\<close> or 4000 under \<open>value\<close>.
\<close>

theorem set_channel_samplerate_raises:
  "set_channel_samplerate (sample_arc (answering ok_response)) (PChannel MAIN_CURRENT) (PInt 4000)
     = (Inl AttributeError, sample_arc (answering ok_response)) \<and>
   sent_data (sample_arc (answering ok_response))
     (set_channel_samplerate (sample_arc (answering ok_response)) (PChannel MAIN_CURRENT) (PInt 4000))
     ''channel'' = None \<and>
   sent_data (sample_arc (answering ok_response))
     (set_channel_samplerate (sample_arc (answering ok_response)) (PChannel MAIN_CURRENT) (PInt 4000))
     ''value'' = None"
  by (simp add: set_channel_samplerate_def sent_data_def new_exchanges_raise)

subsection \<open>Calls on the connection\<close>

lemma sends_once:
  "sends f t \<Longrightarrow> \<exists>req resp. new_exchanges self (f self) = [(req, t, resp)]"
  by (erule sends.cases)
     (simp_all add: method_defs new_exchanges_transact new_exchanges_expr_stmt)

lemma sends_public_call: "sends f t \<Longrightarrow> public_call f"
  by (erule sends.cases) (auto intro: public_call.intros)

lemma public_call_at_most_once: "public_call f \<Longrightarrow> length (new_exchanges self (f self)) \<le> 1"
  by (erule public_call.cases)
     (auto simp: method_defs new_exchanges_transact new_exchanges_expr_stmt new_exchanges_raise
        split: sum.splits)

text \<open>
  C7 fails on the code for \<open>set_channel_samplerate\<close>: called with a channel and a sample
  rate of 4000, a public call, it never reaches \<open>send_and_receive\<close>. (Every other method,
  called with arguments of the documented types, makes exactly one call with the timeout
  the claim names, for \<open>wait_for_battery_data\<close> whenever the interpreter computes the sum:
  \<open>sends_once\<close>.)
\<close>

theorem set_channel_samplerate_sends_nothing:
  "public_call (\<lambda>self. set_channel_samplerate self (PChannel MAIN_CURRENT) (PInt 4000)) \<and>
   new_exchanges (sample_arc (answering ok_response))
     (set_channel_samplerate (sample_arc (answering ok_response)) (PChannel MAIN_CURRENT) (PInt 4000))
     = []"
proof
  show "public_call (\<lambda>self. set_channel_samplerate self (PChannel MAIN_CURRENT) (PInt 4000))"
    by (rule public_call.set_channel_samplerate)
  show "new_exchanges (sample_arc (answering ok_response))
     (set_channel_samplerate (sample_arc (answering ok_response)) (PChannel MAIN_CURRENT) (PInt 4000))
     = []"
    by (simp add: set_channel_samplerate_def new_exchanges_raise)
qed

end
